theory Spec2Isabelle
  imports Main
begin

section \<open>Order processing API: data model\<close>

text \<open>
  The service of \<^verbatim>\<open>main.py\<close> is embedded as pure functions over an explicit state.
  Three things the source takes from libraries are not code of the repository and are
  fixed here as follows.
  \<^item> pydantic's \<^verbatim>\<open>EmailStr\<close> is a parameter \<open>EmailStr :: string \<Rightarrow> string option\<close>:
    \<open>None\<close> when the text is not an e-mail address, otherwise the validated
    (possibly normalised) address.
  \<^item> Python's \<^verbatim>\<open>str\<close> on a dictionary is a parameter \<open>str_of\<close>.
  \<^item> The table \<^verbatim>\<open>orders\<close> of the SQLite database is the list of its rows; a new
    row gets the integer primary key SQLite gives it (1 in an empty table, otherwise
    one more than the largest key in use).
  A request body is a parsed JSON object whose members are strings, a Python
  \<^verbatim>\<open>str\<close> is a \<open>string\<close> whose length is its number of characters, and path
  parameters are already integers.
\<close>

datatype OrderStatus = created | processing | completed | cancelled

text \<open>\<^verbatim>\<open>OrderStatus(v)\<close>: the member whose value is \<open>v\<close>, if any.\<close>

definition OrderStatus_lookup :: "string \<Rightarrow> OrderStatus option" where
  "OrderStatus_lookup v =
     (if v = ''created'' then Some created
      else if v = ''processing'' then Some processing
      else if v = ''completed'' then Some completed
      else if v = ''cancelled'' then Some cancelled
      else None)"

text \<open>The ORM class \<^verbatim>\<open>Order\<close>: one row of the table.\<close>

record Order =
  id' :: int
  customer_email :: string
  item :: string
  status :: OrderStatus

text \<open>The pydantic models of the request bodies and of the response.\<close>

record OrderCreate =
  customer_email :: string
  item :: string

record OrderUpdate =
  status :: OrderStatus

record OrderOut =
  id' :: int
  customer_email :: string
  item :: string
  status :: OrderStatus

type_synonym json_object = "string \<rightharpoonup> string"

text \<open>\<^verbatim>\<open>constr(min_length, max_length)\<close>: the string itself when its length is in range.\<close>

definition constr :: "nat \<Rightarrow> nat \<Rightarrow> string \<Rightarrow> string option" where
  "constr min_length max_length v =
     (if length v < min_length \<or> max_length < length v then None else Some v)"

text \<open>
  Validation of a body against \<^verbatim>\<open>OrderCreate\<close>: every declared field is looked up and
  validated, members that are not declared are never read, and a failure lists the
  offending fields in declaration order.
\<close>

definition OrderCreate_validate ::
  "(string \<Rightarrow> string option) \<Rightarrow> json_object \<Rightarrow> string list + OrderCreate" where
  "OrderCreate_validate EmailStr obj =
     (let e = Option.bind (obj ''customer_email'') EmailStr;
          i = Option.bind (obj ''item'') (constr 1 100)
      in case (e, i) of
           (Some e', Some i') \<Rightarrow> Inr \<lparr>OrderCreate.customer_email = e', item = i'\<rparr>
         | _ \<Rightarrow> Inl ((if e = None then [''customer_email''] else []) @
                     (if i = None then [''item''] else [])))"

definition OrderUpdate_validate :: "json_object \<Rightarrow> string list + OrderUpdate" where
  "OrderUpdate_validate obj =
     (case Option.bind (obj ''status'') OrderStatus_lookup of
        None \<Rightarrow> Inl [''status'']
      | Some s \<Rightarrow> Inr \<lparr>OrderUpdate.status = s\<rparr>)"

text \<open>
  \<^verbatim>\<open>response_model=OrderOut\<close> with \<^verbatim>\<open>orm_mode\<close>: the returned row is read attribute by
  attribute and validated again; only \<^verbatim>\<open>customer_email: EmailStr\<close> can fail.
\<close>

definition OrderOut_from_orm :: "(string \<Rightarrow> string option) \<Rightarrow> Order \<Rightarrow> OrderOut option" where
  "OrderOut_from_orm EmailStr order =
     (case EmailStr (Order.customer_email order) of
        None \<Rightarrow> None
      | Some e \<Rightarrow> Some \<lparr>OrderOut.id' = Order.id' order, customer_email = e,
                        item = Order.item order, status = Order.status order\<rparr>)"

section \<open>Structured logging\<close>

text \<open>
  A \<^verbatim>\<open>logging.LogRecord\<close> as the formatter reads it: the level name, the message, and the
  three attributes that \<^verbatim>\<open>extra=\<close> may have set (\<open>None\<close> when \<^verbatim>\<open>getattr\<close> falls back
  to its default).
\<close>

record LogRecord =
  levelname :: string
  msg :: string
  event :: "string option"
  order_id :: "int option"
  user :: "string option"

datatype pyval = PyStr string | PyInt int | PyEnum OrderStatus

type_synonym pydict = "(string \<times> pyval) list"






section \<open>State, errors and responses\<close>

text \<open>
  The state the handlers act on: the committed rows of the table and the records the
  logger \<^verbatim>\<open>uvicorn.access\<close> has handed to its handler, oldest first.
\<close>

record state =
  orders :: "Order list"
  emitted :: "LogRecord list"

text \<open>A scheduled background task: a call of \<^verbatim>\<open>mock_send_email\<close> with its arguments.\<close>

datatype task = mock_send_email_task string int OrderStatus

datatype error =
    HTTPException nat string
  | RequestValidationError "string list"
  | ResponseValidationError
  | InvalidRequestError

datatype content =
    OrderJson OrderOut
  | Detail string
  | ValidationDetail "string list"
  | InternalServerError

record Response =
  status_code :: nat
  content :: content

record Request =
  headers :: "string \<rightharpoonup> string"
  json :: json_object

text \<open>
  \<^verbatim>\<open>custom_http_exception_handler\<close> for \<^verbatim>\<open>HTTPException\<close>; the framework's own handlers
  for a body that fails validation (422) and for anything else (500).
\<close>

fun exception_handler :: "error \<Rightarrow> Response" where
  "exception_handler (HTTPException code detail) =
     \<lparr>status_code = code, content = Detail detail\<rparr>"
| "exception_handler (RequestValidationError errs) =
     \<lparr>status_code = 422, content = ValidationDetail errs\<rparr>"
| "exception_handler ResponseValidationError =
     \<lparr>status_code = 500, content = InternalServerError\<rparr>"
| "exception_handler InvalidRequestError =
     \<lparr>status_code = 500, content = InternalServerError\<rparr>"

section \<open>The store\<close>

text \<open>\<^verbatim>\<open>db.query(Order).filter(Order.id == order_id).first()\<close>\<close>

definition query_first :: "int \<Rightarrow> Order list \<Rightarrow> Order option" where
  "query_first oid rows = find (\<lambda>r. Order.id' r = oid) rows"

definition next_rowid :: "Order list \<Rightarrow> int" where
  "next_rowid rows = (if rows = [] then 1 else Max (set (map Order.id' rows)) + 1)"

text \<open>
  \<^verbatim>\<open>db.add(order); db.commit()\<close> for a new object: the row is inserted with the key the
  table assigns and with the column default \<^verbatim>\<open>OrderStatus.created\<close>.
\<close>

definition insert_order :: "OrderCreate \<Rightarrow> Order list \<Rightarrow> int \<times> Order list" where
  "insert_order order_in rows =
     (let pk = next_rowid rows
      in (pk, rows @ [\<lparr>Order.id' = pk,
                       customer_email = OrderCreate.customer_email order_in,
                       item = OrderCreate.item order_in,
                       status = created\<rparr>]))"

text \<open>
  \<^verbatim>\<open>order.status = ...; db.add(order); db.commit()\<close> for a loaded object: the status
  column of the row with this key is written.
\<close>

definition update_status :: "int \<Rightarrow> OrderStatus \<Rightarrow> Order list \<Rightarrow> Order list" where
  "update_status pk s rows =
     map (\<lambda>r. if Order.id' r = pk then r\<lparr>Order.status := s\<rparr> else r) rows"

section \<open>Dependencies and handlers\<close>

definition staff_required :: "Request \<Rightarrow> error + string" where
  "staff_required request =
     (let role = headers request ''X-User-Role''
      in if role \<noteq> Some ''staff''
         then Inl (HTTPException 403 ''Staff privileges required.'')
         else (case role of
                 Some r \<Rightarrow> Inr r
               | None \<Rightarrow> Inl (HTTPException 403 ''Staff privileges required.'')))"

text \<open>\<^verbatim>\<open>logger.info(msg, extra={...})\<close> on a logger at level INFO.\<close>

definition logger_info ::
  "string \<Rightarrow> string option \<Rightarrow> int option \<Rightarrow> string option \<Rightarrow> state \<Rightarrow> state" where
  "logger_info m ev oid usr s =
     s\<lparr>emitted := emitted s @
          [\<lparr>levelname = ''INFO'', msg = m, event = ev, order_id = oid, user = usr\<rparr>]\<rparr>"

definition log_data :: "string \<Rightarrow> int \<Rightarrow> OrderStatus \<Rightarrow> pydict" where
  "log_data email oid st =
     [(''event'', PyStr ''notification_sent''),
      (''order_id'', PyInt oid),
      (''email'', PyStr email),
      (''status'', PyEnum st)]"

definition mock_send_email ::
  "(pydict \<Rightarrow> string) \<Rightarrow> string \<Rightarrow> int \<Rightarrow> OrderStatus \<Rightarrow> state \<Rightarrow> state" where
  "mock_send_email str_of email oid st s =
     logger_info (str_of (log_data email oid st)) None None None s"

text \<open>
  The handlers take the validated body, the request's \<^verbatim>\<open>BackgroundTasks\<close>, the state and
  the value of the \<^verbatim>\<open>staff_required\<close> dependency; they return the ORM object or the
  exception raised, the tasks and the state. \<^verbatim>\<open>db.refresh\<close> reads the row back by its key.
\<close>

definition create_order ::
  "OrderCreate \<Rightarrow> task list \<Rightarrow> state \<Rightarrow> string \<Rightarrow> (error + Order) \<times> task list \<times> state" where
  "create_order order_in background_tasks s usr =
     (let (pk, rows) = insert_order order_in (orders s);
          s1 = s\<lparr>orders := rows\<rparr>
      in case query_first pk (orders s1) of
           None \<Rightarrow> (Inl InvalidRequestError, background_tasks, s1)
         | Some order \<Rightarrow>
             (Inr order, background_tasks,
              logger_info [] (Some ''order_created'') (Some (Order.id' order)) (Some usr) s1))"

definition update_order ::
  "int \<Rightarrow> OrderUpdate \<Rightarrow> task list \<Rightarrow> state \<Rightarrow> string \<Rightarrow>
     (error + Order) \<times> task list \<times> state" where
  "update_order oid update background_tasks s usr =
     (case query_first oid (orders s) of
        None \<Rightarrow> (Inl (HTTPException 404 ''Order not found.''), background_tasks, s)
      | Some order0 \<Rightarrow>
          (let s1 = s\<lparr>orders := update_status (Order.id' order0) (OrderUpdate.status update)
                                   (orders s)\<rparr>
           in case query_first (Order.id' order0) (orders s1) of
                None \<Rightarrow> (Inl InvalidRequestError, background_tasks, s1)
              | Some order \<Rightarrow>
                  (Inr order,
                   background_tasks @
                     [mock_send_email_task (Order.customer_email order) (Order.id' order)
                        (Order.status order)],
                   logger_info [] (Some ''order_updated'') (Some (Order.id' order))
                     (Some usr) s1)))"

definition get_order :: "int \<Rightarrow> state \<Rightarrow> error + Order" where
  "get_order oid s =
     (case query_first oid (orders s) of
        None \<Rightarrow> Inl (HTTPException 404 ''Order not found.'')
      | Some order \<Rightarrow> Inr order)"

section \<open>The routes\<close>

text \<open>
  What the router does around a handler: the dependencies are resolved first (an
  exception raised there ends the request), then the body is validated, then the
  handler runs, and its result is serialised through the response model. The tasks
  are handed over with a response that was built; none is kept when the request fails.
\<close>

definition serialize_response ::
  "(string \<Rightarrow> string option) \<Rightarrow> nat \<Rightarrow> (error + Order) \<times> task list \<times> state \<Rightarrow>
     Response \<times> task list \<times> state" where
  "serialize_response EmailStr code res =
     (case res of
        (Inl e, ts, s) \<Rightarrow> (exception_handler e, [], s)
      | (Inr order, ts, s) \<Rightarrow>
          (case OrderOut_from_orm EmailStr order of
             None \<Rightarrow> (exception_handler ResponseValidationError, [], s)
           | Some out \<Rightarrow> (\<lparr>status_code = code, content = OrderJson out\<rparr>, ts, s)))"

definition post_orders ::
  "(string \<Rightarrow> string option) \<Rightarrow> Request \<Rightarrow> state \<Rightarrow> Response \<times> task list \<times> state" where
  "post_orders EmailStr request s =
     (case staff_required request of
        Inl e \<Rightarrow> (exception_handler e, [], s)
      | Inr usr \<Rightarrow>
          (case OrderCreate_validate EmailStr (json request) of
             Inl errs \<Rightarrow> (exception_handler (RequestValidationError errs), [], s)
           | Inr order_in \<Rightarrow>
               serialize_response EmailStr 201 (create_order order_in [] s usr)))"

definition put_orders ::
  "(string \<Rightarrow> string option) \<Rightarrow> int \<Rightarrow> Request \<Rightarrow> state \<Rightarrow>
     Response \<times> task list \<times> state" where
  "put_orders EmailStr oid request s =
     (case staff_required request of
        Inl e \<Rightarrow> (exception_handler e, [], s)
      | Inr usr \<Rightarrow>
          (case OrderUpdate_validate (json request) of
             Inl errs \<Rightarrow> (exception_handler (RequestValidationError errs), [], s)
           | Inr update \<Rightarrow>
               serialize_response EmailStr 200 (update_order oid update [] s usr)))"

definition get_orders ::
  "(string \<Rightarrow> string option) \<Rightarrow> int \<Rightarrow> Request \<Rightarrow> state \<Rightarrow>
     Response \<times> task list \<times> state" where
  "get_orders EmailStr oid request s =
     serialize_response EmailStr 200 (get_order oid s, [], s)"

text \<open>The background tasks run, in order, once the response has been produced.\<close>

fun run_task :: "(pydict \<Rightarrow> string) \<Rightarrow> task \<Rightarrow> state \<Rightarrow> state" where
  "run_task str_of (mock_send_email_task email oid st) s = mock_send_email str_of email oid st s"

definition run_background :: "(pydict \<Rightarrow> string) \<Rightarrow> task list \<Rightarrow> state \<Rightarrow> state" where
  "run_background str_of ts s = fold (run_task str_of) ts s"

definition serve ::
  "(pydict \<Rightarrow> string) \<Rightarrow> (state \<Rightarrow> Response \<times> task list \<times> state) \<Rightarrow> state \<Rightarrow>
     Response \<times> state" where
  "serve str_of route s =
     (case route s of (response, ts, s') \<Rightarrow> (response, run_background str_of ts s'))"

section \<open>Facts about the store\<close>

lemma next_rowid_fresh: "r \<in> set rows \<Longrightarrow> Order.id' r < next_rowid rows"
proof -
  assume a: "r \<in> set rows"
  then have ne: "rows \<noteq> []" by auto
  have "Order.id' r \<in> set (map Order.id' rows)" using a by simp
  then have "Order.id' r \<le> Max (set (map Order.id' rows))" by (intro Max_ge) auto
  then show ?thesis using ne by (simp add: next_rowid_def)
qed

lemma query_first_Some: "query_first k rows = Some r \<Longrightarrow> Order.id' r = k \<and> r \<in> set rows"
  by (auto simp: query_first_def find_Some_iff)

lemma query_first_None: "query_first k rows = None \<longleftrightarrow> k \<notin> Order.id' ` set rows"
  by (auto simp: query_first_def find_None_iff)

lemma find_append_case:
  "find P (xs @ ys) = (case find P xs of None \<Rightarrow> find P ys | Some x \<Rightarrow> Some x)"
  by (induction xs) auto

lemma query_first_append:
  "query_first k (rows @ [r]) =
     (case query_first k rows of None \<Rightarrow> (if Order.id' r = k then Some r else None)
      | Some x \<Rightarrow> Some x)"
  by (auto simp: query_first_def find_append_case split: option.splits)

lemma query_first_next_rowid: "query_first (next_rowid rows) rows = None"
  using next_rowid_fresh [of _ rows] by (fastforce simp: query_first_None)

lemma query_first_append_fresh:
  "Order.id' r = next_rowid rows \<Longrightarrow> query_first (next_rowid rows) (rows @ [r]) = Some r"
  by (simp add: query_first_append query_first_next_rowid)

lemma query_first_insert:
  "insert_order order_in rows = (pk, rows') \<Longrightarrow>
   query_first pk rows' = Some \<lparr>Order.id' = next_rowid rows,
      customer_email = OrderCreate.customer_email order_in,
      item = OrderCreate.item order_in, status = created\<rparr>"
  by (auto simp: insert_order_def Let_def query_first_append_fresh)

lemma query_first_insert_old:
  "k \<noteq> next_rowid rows \<Longrightarrow> query_first k (snd (insert_order order_in rows)) = query_first k rows"
  by (auto simp: insert_order_def Let_def query_first_append split: option.splits)

lemma query_first_update_status:
  "query_first k (update_status pk st rows) =
     map_option (\<lambda>r. if pk = k then r\<lparr>Order.status := st\<rparr> else r) (query_first k rows)"
  unfolding query_first_def update_status_def
  by (induction rows) auto


lemma update_status_frame:
  "map (\<lambda>r. (Order.id' r, Order.customer_email r, Order.item r)) (update_status pk st rows) =
   map (\<lambda>r. (Order.id' r, Order.customer_email r, Order.item r)) rows"
  unfolding update_status_def by (induction rows) auto

lemma staff_required_staff:
  "headers request ''X-User-Role'' = Some ''staff'' \<Longrightarrow> staff_required request = Inr ''staff''"
  by (simp add: staff_required_def)

lemma staff_required_other:
  "headers request ''X-User-Role'' \<noteq> Some ''staff'' \<Longrightarrow>
   staff_required request = Inl (HTTPException 403 ''Staff privileges required.'')"
  by (simp add: staff_required_def)

section \<open>The handlers and routes, case by case\<close>

lemma OrderCreate_validate_ok:
  "obj ''customer_email'' = Some e \<Longrightarrow> EmailStr e = Some e' \<Longrightarrow> obj ''item'' = Some i \<Longrightarrow>
   1 \<le> length i \<Longrightarrow> length i \<le> 100 \<Longrightarrow>
   OrderCreate_validate EmailStr obj = Inr \<lparr>OrderCreate.customer_email = e', item = i\<rparr>"
  by (auto simp: OrderCreate_validate_def constr_def)

lemma OrderUpdate_validate_ok:
  "obj ''status'' = Some v \<Longrightarrow> OrderStatus_lookup v = Some st \<Longrightarrow>
   OrderUpdate_validate obj = Inr \<lparr>OrderUpdate.status = st\<rparr>"
  by (simp add: OrderUpdate_validate_def)

lemma create_order_result:
  "create_order order_in ts s usr =
     (Inr \<lparr>Order.id' = next_rowid (orders s),
            customer_email = OrderCreate.customer_email order_in,
            item = OrderCreate.item order_in, status = created\<rparr>,
      ts,
      \<lparr>orders = orders s @ [\<lparr>Order.id' = next_rowid (orders s),
            customer_email = OrderCreate.customer_email order_in,
            item = OrderCreate.item order_in, status = created\<rparr>],
       emitted = emitted s @ [\<lparr>levelname = ''INFO'', msg = [], event = Some ''order_created'',
            order_id = Some (next_rowid (orders s)), user = Some usr\<rparr>]\<rparr>)"
  by (simp add: create_order_def insert_order_def Let_def query_first_append_fresh logger_info_def)

lemma update_order_found:
  "query_first oid (orders s) = Some order \<Longrightarrow>
   update_order oid update ts s usr =
     (Inr (order\<lparr>Order.status := OrderUpdate.status update\<rparr>),
      ts @ [mock_send_email_task (Order.customer_email order) oid (OrderUpdate.status update)],
      \<lparr>orders = update_status oid (OrderUpdate.status update) (orders s),
       emitted = emitted s @ [\<lparr>levelname = ''INFO'', msg = [], event = Some ''order_updated'',
            order_id = Some oid, user = Some usr\<rparr>]\<rparr>)"
  by (frule query_first_Some)
     (simp add: update_order_def Let_def query_first_update_status logger_info_def)

lemma update_order_missing:
  "query_first oid (orders s) = None \<Longrightarrow>
   update_order oid update ts s usr = (Inl (HTTPException 404 ''Order not found.''), ts, s)"
  by (simp add: update_order_def)

lemma post_orders_forbidden:
  "headers request ''X-User-Role'' \<noteq> Some ''staff'' \<Longrightarrow>
   post_orders EmailStr request s =
     (\<lparr>status_code = 403, content = Detail ''Staff privileges required.''\<rparr>, [], s)"
  by (simp add: post_orders_def staff_required_other)

lemma put_orders_forbidden:
  "headers request ''X-User-Role'' \<noteq> Some ''staff'' \<Longrightarrow>
   put_orders EmailStr oid request s =
     (\<lparr>status_code = 403, content = Detail ''Staff privileges required.''\<rparr>, [], s)"
  by (simp add: put_orders_def staff_required_other)

lemma post_orders_invalid:
  "headers request ''X-User-Role'' = Some ''staff'' \<Longrightarrow>
   OrderCreate_validate EmailStr (json request) = Inl errs \<Longrightarrow>
   post_orders EmailStr request s =
     (\<lparr>status_code = 422, content = ValidationDetail errs\<rparr>, [], s)"
  by (simp add: post_orders_def staff_required_staff)

lemma put_orders_invalid:
  "headers request ''X-User-Role'' = Some ''staff'' \<Longrightarrow>
   OrderUpdate_validate (json request) = Inl errs \<Longrightarrow>
   put_orders EmailStr oid request s =
     (\<lparr>status_code = 422, content = ValidationDetail errs\<rparr>, [], s)"
  by (simp add: put_orders_def staff_required_staff)

lemma post_orders_valid:
  "headers request ''X-User-Role'' = Some ''staff'' \<Longrightarrow>
   OrderCreate_validate EmailStr (json request) = Inr order_in \<Longrightarrow>
   EmailStr (OrderCreate.customer_email order_in) = Some (OrderCreate.customer_email order_in) \<Longrightarrow>
   post_orders EmailStr request s =
     (\<lparr>status_code = 201,
       content = OrderJson \<lparr>OrderOut.id' = next_rowid (orders s),
                   customer_email = OrderCreate.customer_email order_in,
                   item = OrderCreate.item order_in, status = created\<rparr>\<rparr>,
      [],
      \<lparr>orders = orders s @ [\<lparr>Order.id' = next_rowid (orders s),
            customer_email = OrderCreate.customer_email order_in,
            item = OrderCreate.item order_in, status = created\<rparr>],
       emitted = emitted s @ [\<lparr>levelname = ''INFO'', msg = [], event = Some ''order_created'',
            order_id = Some (next_rowid (orders s)), user = Some ''staff''\<rparr>]\<rparr>)"
  by (simp add: post_orders_def staff_required_staff create_order_result
        serialize_response_def OrderOut_from_orm_def)

lemma put_orders_found:
  "headers request ''X-User-Role'' = Some ''staff'' \<Longrightarrow>
   OrderUpdate_validate (json request) = Inr update \<Longrightarrow>
   query_first oid (orders s) = Some order \<Longrightarrow>
   EmailStr (Order.customer_email order) = Some (Order.customer_email order) \<Longrightarrow>
   put_orders EmailStr oid request s =
     (\<lparr>status_code = 200,
       content = OrderJson \<lparr>OrderOut.id' = oid,
                   customer_email = Order.customer_email order,
                   item = Order.item order, status = OrderUpdate.status update\<rparr>\<rparr>,
      [mock_send_email_task (Order.customer_email order) oid (OrderUpdate.status update)],
      \<lparr>orders = update_status oid (OrderUpdate.status update) (orders s),
       emitted = emitted s @ [\<lparr>levelname = ''INFO'', msg = [], event = Some ''order_updated'',
            order_id = Some oid, user = Some ''staff''\<rparr>]\<rparr>)"
  by (frule query_first_Some)
     (simp add: put_orders_def staff_required_staff update_order_found
        serialize_response_def OrderOut_from_orm_def)

lemma put_orders_missing:
  "headers request ''X-User-Role'' = Some ''staff'' \<Longrightarrow>
   OrderUpdate_validate (json request) = Inr update \<Longrightarrow>
   query_first oid (orders s) = None \<Longrightarrow>
   put_orders EmailStr oid request s =
     (\<lparr>status_code = 404, content = Detail ''Order not found.''\<rparr>, [], s)"
  by (simp add: put_orders_def staff_required_staff update_order_missing
        serialize_response_def)


lemma get_orders_found:
  "query_first oid (orders s) = Some order \<Longrightarrow>
   EmailStr (Order.customer_email order) = Some (Order.customer_email order) \<Longrightarrow>
   get_orders EmailStr oid request s =
     (\<lparr>status_code = 200,
       content = OrderJson \<lparr>OrderOut.id' = oid,
                   customer_email = Order.customer_email order,
                   item = Order.item order, status = Order.status order\<rparr>\<rparr>, [], s)"
  by (frule query_first_Some)
     (simp add: get_orders_def get_order_def serialize_response_def OrderOut_from_orm_def)


lemma put_orders_unfold:
  "put_orders EmailStr oid request s =
     (if headers request ''X-User-Role'' \<noteq> Some ''staff''
      then (\<lparr>status_code = 403, content = Detail ''Staff privileges required.''\<rparr>, [], s)
      else case OrderUpdate_validate (json request) of
        Inl errs \<Rightarrow> (\<lparr>status_code = 422, content = ValidationDetail errs\<rparr>, [], s)
      | Inr update \<Rightarrow>
         (case query_first oid (orders s) of
            None \<Rightarrow> (\<lparr>status_code = 404, content = Detail ''Order not found.''\<rparr>, [], s)
          | Some order \<Rightarrow>
             (let s' = \<lparr>orders = update_status oid (OrderUpdate.status update) (orders s),
                        emitted = emitted s @ [\<lparr>levelname = ''INFO'', msg = [],
                           event = Some ''order_updated'', order_id = Some oid,
                           user = Some ''staff''\<rparr>]\<rparr>
              in case EmailStr (Order.customer_email order) of
                   None \<Rightarrow> (\<lparr>status_code = 500, content = InternalServerError\<rparr>, [], s')
                 | Some e \<Rightarrow>
                     (\<lparr>status_code = 200,
                       content = OrderJson \<lparr>OrderOut.id' = oid, customer_email = e,
                          item = Order.item order, status = OrderUpdate.status update\<rparr>\<rparr>,
                      [mock_send_email_task (Order.customer_email order) oid
                         (OrderUpdate.status update)], s'))))"
proof (cases "headers request ''X-User-Role'' = Some ''staff''")
  case False
  then show ?thesis by (simp add: put_orders_forbidden)
next
  case True
  show ?thesis
  proof (cases "OrderUpdate_validate (json request)")
    case (Inl errs)
    then show ?thesis using True by (simp add: put_orders_invalid)
  next
    case (Inr update)
    show ?thesis
    proof (cases "query_first oid (orders s)")
      case None
      then show ?thesis using True Inr by (simp add: put_orders_missing)
    next
      case (Some order)
      then have "Order.id' order = oid" by (simp add: query_first_Some)
      then show ?thesis using True Inr Some
        by (simp add: put_orders_def staff_required_staff update_order_found
              serialize_response_def OrderOut_from_orm_def split: option.splits)
    qed
  qed
qed

lemma post_orders_unfold:
  "post_orders EmailStr request s =
     (if headers request ''X-User-Role'' \<noteq> Some ''staff''
      then (\<lparr>status_code = 403, content = Detail ''Staff privileges required.''\<rparr>, [], s)
      else case OrderCreate_validate EmailStr (json request) of
        Inl errs \<Rightarrow> (\<lparr>status_code = 422, content = ValidationDetail errs\<rparr>, [], s)
      | Inr order_in \<Rightarrow>
         (let s' = \<lparr>orders = orders s @ [\<lparr>Order.id' = next_rowid (orders s),
                        customer_email = OrderCreate.customer_email order_in,
                        item = OrderCreate.item order_in, status = created\<rparr>],
                    emitted = emitted s @ [\<lparr>levelname = ''INFO'', msg = [],
                       event = Some ''order_created'',
                       order_id = Some (next_rowid (orders s)), user = Some ''staff''\<rparr>]\<rparr>
          in case EmailStr (OrderCreate.customer_email order_in) of
               None \<Rightarrow> (\<lparr>status_code = 500, content = InternalServerError\<rparr>, [], s')
             | Some e \<Rightarrow>
                 (\<lparr>status_code = 201,
                   content = OrderJson \<lparr>OrderOut.id' = next_rowid (orders s),
                      customer_email = e, item = OrderCreate.item order_in,
                      status = created\<rparr>\<rparr>, [], s')))"
proof (cases "headers request ''X-User-Role'' = Some ''staff''")
  case False
  then show ?thesis by (simp add: post_orders_forbidden)
next
  case True
  then show ?thesis
    by (simp add: post_orders_def staff_required_staff create_order_result
          serialize_response_def OrderOut_from_orm_def split: sum.splits option.splits)
qed

lemma get_orders_unfold:
  "get_orders EmailStr oid request s =
     (case query_first oid (orders s) of
        None \<Rightarrow> (\<lparr>status_code = 404, content = Detail ''Order not found.''\<rparr>, [], s)
      | Some order \<Rightarrow>
         (case EmailStr (Order.customer_email order) of
            None \<Rightarrow> (\<lparr>status_code = 500, content = InternalServerError\<rparr>, [], s)
          | Some e \<Rightarrow>
              (\<lparr>status_code = 200,
                content = OrderJson \<lparr>OrderOut.id' = oid, customer_email = e,
                   item = Order.item order, status = Order.status order\<rparr>\<rparr>, [], s)))"
  by (auto simp: get_orders_def get_order_def serialize_response_def OrderOut_from_orm_def
        split: option.splits dest: query_first_Some)

lemma run_background_none: "run_background str_of [] s = s"
  by (simp add: run_background_def)

lemma run_background_one:
  "run_background str_of [mock_send_email_task email oid st] s =
     s\<lparr>emitted := emitted s @
         [\<lparr>levelname = ''INFO'', msg = str_of (log_data email oid st), event = None,
           order_id = None, user = None\<rparr>]\<rparr>"
  by (simp add: run_background_def mock_send_email_def logger_info_def)



text \<open>
  Every address in the table was returned by \<open>EmailStr\<close>. When \<open>EmailStr\<close> accepts its
  own results unchanged, every route keeps the table in the set of states where each
  stored address is accepted unchanged; the theorems below about stored orders assume
  this of the order they speak about.
\<close>

lemma post_orders_keeps_addresses:
  assumes "\<forall>r \<in> set (orders s). EmailStr (Order.customer_email r) = Some (Order.customer_email r)"
    and "\<forall>e e'. EmailStr e = Some e' \<longrightarrow> EmailStr e' = Some e'"
  shows "\<forall>r \<in> set (orders (snd (snd (post_orders EmailStr request s)))).
           EmailStr (Order.customer_email r) = Some (Order.customer_email r)"
proof (cases "OrderCreate_validate EmailStr (json request)")
  case (Inl errs)
  then show ?thesis using assms(1) by (simp add: post_orders_unfold)
next
  case (Inr order_in)
  then have "\<exists>e. EmailStr e = Some (OrderCreate.customer_email order_in)"
    by (auto simp: OrderCreate_validate_def Let_def bind_eq_Some_conv split: option.splits)
  then have "EmailStr (OrderCreate.customer_email order_in) =
               Some (OrderCreate.customer_email order_in)"
    using assms(2) by blast
  then show ?thesis using assms(1) Inr by (auto simp: post_orders_unfold Let_def)
qed

lemma put_orders_keeps_addresses:
  assumes "\<forall>r \<in> set (orders s). EmailStr (Order.customer_email r) = Some (Order.customer_email r)"
  shows "\<forall>r \<in> set (orders (snd (snd (put_orders EmailStr oid request s)))).
           EmailStr (Order.customer_email r) = Some (Order.customer_email r)"
  using assms
  by (auto simp: put_orders_unfold Let_def update_status_def
        split: sum.splits option.splits)

section \<open>The claims\<close>

text \<open>
  C1. A create request with the role header \<open>staff\<close> and a valid body (an address that
  \<open>EmailStr\<close> accepts, an item of 1 to 100 characters) is answered with 201 and the new
  order, whose status is \<open>created\<close>; a get with the returned id, from any caller, is
  answered with 200 and the same representation. The response model validates the
  stored address a second time, so \<open>EmailStr\<close> is taken to accept its own result.
\<close>

theorem create_then_get:
  assumes "headers request ''X-User-Role'' = Some ''staff''"
    and "json request ''customer_email'' = Some e"
    and "EmailStr e = Some e'" and "EmailStr e' = Some e'"
    and "json request ''item'' = Some i"
    and "1 \<le> length i" and "length i \<le> 100"
  shows "let out = \<lparr>OrderOut.id' = next_rowid (orders s), customer_email = e', item = i,
                     status = created\<rparr>;
             s' = \<lparr>orders = orders s @ [\<lparr>Order.id' = next_rowid (orders s),
                      customer_email = e', item = i, status = created\<rparr>],
                   emitted = emitted s @ [\<lparr>levelname = ''INFO'', msg = [],
                      event = Some ''order_created'',
                      order_id = Some (next_rowid (orders s)), user = Some ''staff''\<rparr>]\<rparr>
         in post_orders EmailStr request s =
              (\<lparr>status_code = 201, content = OrderJson out\<rparr>, [], s') \<and>
            OrderOut.status out = created \<and>
            get_orders EmailStr (OrderOut.id' out) request' s' =
              (\<lparr>status_code = 200, content = OrderJson out\<rparr>, [], s')"
proof -
  let ?row = "\<lparr>Order.id' = next_rowid (orders s), customer_email = e', item = i,
               status = created\<rparr>"
  let ?s' = "\<lparr>orders = orders s @ [?row],
              emitted = emitted s @ [\<lparr>levelname = ''INFO'', msg = [],
                 event = Some ''order_created'',
                 order_id = Some (next_rowid (orders s)), user = Some ''staff''\<rparr>]\<rparr>"
  have v: "OrderCreate_validate EmailStr (json request) =
             Inr \<lparr>OrderCreate.customer_email = e', item = i\<rparr>"
    using assms(2,3,5,6,7) by (simp add: OrderCreate_validate_ok)
  have p: "post_orders EmailStr request s =
             (\<lparr>status_code = 201,
               content = OrderJson \<lparr>OrderOut.id' = next_rowid (orders s),
                  customer_email = e', item = i, status = created\<rparr>\<rparr>, [], ?s')"
    using post_orders_valid [OF assms(1) v, of s] assms(4) by simp
  have q: "query_first (next_rowid (orders s)) (orders ?s') = Some ?row"
    by (simp add: query_first_append_fresh)
  have g: "get_orders EmailStr (next_rowid (orders s)) request' ?s' =
             (\<lparr>status_code = 200,
               content = OrderJson \<lparr>OrderOut.id' = next_rowid (orders s),
                  customer_email = e', item = i, status = created\<rparr>\<rparr>, [], ?s')"
    using get_orders_found [OF q, of EmailStr request'] assms(4) by simp
  show ?thesis using p g by (simp add: Let_def)
qed

theorem create_then_get_witness:
  "post_orders (\<lambda>v. if v = ''a@b.com'' then Some v else None)
     \<lparr>headers = [''X-User-Role'' \<mapsto> ''staff''],
      json = [''customer_email'' \<mapsto> ''a@b.com'', ''item'' \<mapsto> ''Widget'']\<rparr>
     \<lparr>orders = [], emitted = []\<rparr> =
   (\<lparr>status_code = 201,
     content = OrderJson \<lparr>OrderOut.id' = 1, customer_email = ''a@b.com'', item = ''Widget'',
                 status = created\<rparr>\<rparr>,
    [],
    \<lparr>orders = [\<lparr>Order.id' = 1, customer_email = ''a@b.com'', item = ''Widget'',
                 status = created\<rparr>],
     emitted = [\<lparr>levelname = ''INFO'', msg = [], event = Some ''order_created'',
                  order_id = Some 1, user = Some ''staff''\<rparr>]\<rparr>) \<and>
   get_orders (\<lambda>v. if v = ''a@b.com'' then Some v else None) 1
     \<lparr>headers = Map.empty, json = Map.empty\<rparr>
     \<lparr>orders = [\<lparr>Order.id' = 1, customer_email = ''a@b.com'', item = ''Widget'',
                 status = created\<rparr>],
      emitted = [\<lparr>levelname = ''INFO'', msg = [], event = Some ''order_created'',
                  order_id = Some 1, user = Some ''staff''\<rparr>]\<rparr> =
   (\<lparr>status_code = 200,
     content = OrderJson \<lparr>OrderOut.id' = 1, customer_email = ''a@b.com'', item = ''Widget'',
                 status = created\<rparr>\<rparr>,
    [],
    \<lparr>orders = [\<lparr>Order.id' = 1, customer_email = ''a@b.com'', item = ''Widget'',
                 status = created\<rparr>],
     emitted = [\<lparr>levelname = ''INFO'', msg = [], event = Some ''order_created'',
                  order_id = Some 1, user = Some ''staff''\<rparr>]\<rparr>)"
  using create_then_get [of "\<lparr>headers = [''X-User-Role'' \<mapsto> ''staff''],
      json = [''customer_email'' \<mapsto> ''a@b.com'', ''item'' \<mapsto> ''Widget'']\<rparr>"
      "''a@b.com''" "\<lambda>v. if v = ''a@b.com'' then Some v else None" "''a@b.com''" "''Widget''"
      "\<lparr>orders = [], emitted = []\<rparr>" "\<lparr>headers = Map.empty, json = Map.empty\<rparr>"]
  by (simp add: next_rowid_def Let_def)

text \<open>
  C2. An update request with the role header \<open>staff\<close> and any of the four status
  values, on a stored order in any status, is answered with 200 and the order with
  the submitted status; its id, address and item are those of the stored row, and no
  row of the table changes in anything but the status of that order.
\<close>

theorem update_sets_status:
  assumes "headers request ''X-User-Role'' = Some ''staff''"
    and "json request ''status'' = Some v"
    and "OrderStatus_lookup v = Some st"
    and "query_first oid (orders s) = Some order"
    and "EmailStr (Order.customer_email order) = Some (Order.customer_email order)"
  shows "put_orders EmailStr oid request s =
           (\<lparr>status_code = 200,
             content = OrderJson \<lparr>OrderOut.id' = Order.id' order,
                         customer_email = Order.customer_email order,
                         item = Order.item order, status = st\<rparr>\<rparr>,
            [mock_send_email_task (Order.customer_email order) oid st],
            \<lparr>orders = update_status oid st (orders s),
             emitted = emitted s @ [\<lparr>levelname = ''INFO'', msg = [],
                event = Some ''order_updated'', order_id = Some oid,
                user = Some ''staff''\<rparr>]\<rparr>) \<and>
         map (\<lambda>r. (Order.id' r, Order.customer_email r, Order.item r))
             (update_status oid st (orders s)) =
           map (\<lambda>r. (Order.id' r, Order.customer_email r, Order.item r)) (orders s) \<and>
         query_first oid (update_status oid st (orders s)) =
           Some (order\<lparr>Order.status := st\<rparr>)"
proof -
  have v: "OrderUpdate_validate (json request) = Inr \<lparr>OrderUpdate.status = st\<rparr>"
    using assms(2,3) by (rule OrderUpdate_validate_ok)
  have k: "Order.id' order = oid"
    using assms(4) by (simp add: query_first_Some)
  show ?thesis
    using put_orders_found [of request "\<lparr>OrderUpdate.status = st\<rparr>" oid s order EmailStr]
      assms(1,4,5) v k
    by (simp add: update_status_frame query_first_update_status)
qed

theorem update_sets_status_witness:
  "put_orders (\<lambda>v. if v = ''a@b.com'' then Some v else None) 1
     \<lparr>headers = [''X-User-Role'' \<mapsto> ''staff''], json = [''status'' \<mapsto> ''created'']\<rparr>
     \<lparr>orders = [\<lparr>Order.id' = 1, customer_email = ''a@b.com'', item = ''Widget'',
                 status = completed\<rparr>],
      emitted = []\<rparr> =
   (\<lparr>status_code = 200,
     content = OrderJson \<lparr>OrderOut.id' = 1, customer_email = ''a@b.com'', item = ''Widget'',
                 status = created\<rparr>\<rparr>,
    [mock_send_email_task ''a@b.com'' 1 created],
    \<lparr>orders = [\<lparr>Order.id' = 1, customer_email = ''a@b.com'', item = ''Widget'',
                 status = created\<rparr>],
     emitted = [\<lparr>levelname = ''INFO'', msg = [], event = Some ''order_updated'',
                  order_id = Some 1, user = Some ''staff''\<rparr>]\<rparr>)"
  using update_sets_status [of
      "\<lparr>headers = [''X-User-Role'' \<mapsto> ''staff''], json = [''status'' \<mapsto> ''created'']\<rparr>"
      "''created''" created 1
      "\<lparr>orders = [\<lparr>Order.id' = 1, customer_email = ''a@b.com'', item = ''Widget'',
                 status = completed\<rparr>], emitted = []\<rparr>"
      "\<lparr>Order.id' = 1, customer_email = ''a@b.com'', item = ''Widget'', status = completed\<rparr>"
      "\<lambda>v. if v = ''a@b.com'' then Some v else None"]
  by (simp add: OrderStatus_lookup_def query_first_def update_status_def)



text \<open>
  C4. An update that is answered with 200 schedules exactly one call of
  \<^verbatim>\<open>mock_send_email\<close>, with the address, the id and the status read back from the
  committed row; the response is the one the route produced, and the task runs after
  it, adding its own record to the log. A create request, a get request and an update
  that is not answered with 200 schedule nothing.
\<close>

theorem notification_once_per_update:
  "fst (snd (post_orders EmailStr request s)) = [] \<and>
   fst (snd (get_orders EmailStr oid request s)) = [] \<and>
   (case put_orders EmailStr oid request s of
      (response, ts, s') \<Rightarrow>
        fst (serve str_of (put_orders EmailStr oid request) s) = response \<and>
        (if status_code response = 200
         then \<exists>order st.
                query_first oid (orders s') = Some order \<and>
                OrderUpdate_validate (json request) = Inr \<lparr>OrderUpdate.status = st\<rparr> \<and>
                Order.status order = st \<and>
                ts = [mock_send_email_task (Order.customer_email order) oid st] \<and>
                snd (serve str_of (put_orders EmailStr oid request) s) =
                  s'\<lparr>emitted := emitted s' @
                       [\<lparr>levelname = ''INFO'',
                         msg = str_of (log_data (Order.customer_email order) oid st),
                         event = None, order_id = None, user = None\<rparr>]\<rparr>
         else ts = [] \<and> snd (serve str_of (put_orders EmailStr oid request) s) = s'))"
proof -
  have a: "fst (snd (post_orders EmailStr request s)) = []"
    by (simp add: post_orders_unfold Let_def split: sum.splits option.splits)
  have b: "fst (snd (get_orders EmailStr oid request s)) = []"
    by (simp add: get_orders_unfold split: option.splits)
  have c: "case put_orders EmailStr oid request s of
      (response, ts, s') \<Rightarrow>
        fst (serve str_of (put_orders EmailStr oid request) s) = response \<and>
        (if status_code response = 200
         then \<exists>order st.
                query_first oid (orders s') = Some order \<and>
                OrderUpdate_validate (json request) = Inr \<lparr>OrderUpdate.status = st\<rparr> \<and>
                Order.status order = st \<and>
                ts = [mock_send_email_task (Order.customer_email order) oid st] \<and>
                snd (serve str_of (put_orders EmailStr oid request) s) =
                  s'\<lparr>emitted := emitted s' @
                       [\<lparr>levelname = ''INFO'',
                         msg = str_of (log_data (Order.customer_email order) oid st),
                         event = None, order_id = None, user = None\<rparr>]\<rparr>
         else ts = [] \<and> snd (serve str_of (put_orders EmailStr oid request) s) = s')"
    by (auto simp: put_orders_unfold serve_def Let_def run_background_one
          query_first_update_status run_background_none
          split: sum.splits option.splits)
  show ?thesis using a b c by blast
qed

theorem notification_once_per_update_witness:
  "put_orders (\<lambda>v. if v = ''a@b.com'' then Some v else None) 1
     \<lparr>headers = [''X-User-Role'' \<mapsto> ''staff''], json = [''status'' \<mapsto> ''processing'']\<rparr>
     \<lparr>orders = [\<lparr>Order.id' = 1, customer_email = ''a@b.com'', item = ''Widget'',
                 status = created\<rparr>],
      emitted = []\<rparr> =
   (\<lparr>status_code = 200,
     content = OrderJson \<lparr>OrderOut.id' = 1, customer_email = ''a@b.com'', item = ''Widget'',
                 status = processing\<rparr>\<rparr>,
    [mock_send_email_task ''a@b.com'' 1 processing],
    \<lparr>orders = [\<lparr>Order.id' = 1, customer_email = ''a@b.com'', item = ''Widget'',
                 status = processing\<rparr>],
     emitted = [\<lparr>levelname = ''INFO'', msg = [], event = Some ''order_updated'',
                  order_id = Some 1, user = Some ''staff''\<rparr>]\<rparr>) \<and>
   fst (snd (post_orders (\<lambda>v. if v = ''a@b.com'' then Some v else None)
     \<lparr>headers = [''X-User-Role'' \<mapsto> ''staff''], json = [''status'' \<mapsto> ''processing'']\<rparr>
     \<lparr>orders = [\<lparr>Order.id' = 1, customer_email = ''a@b.com'', item = ''Widget'',
                 status = created\<rparr>],
      emitted = []\<rparr>)) = []"
  using notification_once_per_update [of "\<lambda>v. if v = ''a@b.com'' then Some v else None"
     "\<lparr>headers = [''X-User-Role'' \<mapsto> ''staff''], json = [''status'' \<mapsto> ''processing'']\<rparr>"
     "\<lparr>orders = [\<lparr>Order.id' = 1, customer_email = ''a@b.com'', item = ''Widget'',
                 status = created\<rparr>], emitted = []\<rparr>" 1 "\<lambda>d. ''notification''"]
  by (simp add: put_orders_unfold OrderUpdate_validate_def OrderStatus_lookup_def
        query_first_def update_status_def)













text \<open>
  C10. Only the members \<^verbatim>\<open>customer_email\<close> and \<^verbatim>\<open>item\<close> of a create body are read:
  two bodies that agree on them are treated alike, whatever else they hold, and a
  created order has the key the table assigns, which no row had, and the status
  \<open>created\<close>.
\<close>

theorem create_ignores_extra_fields:
  assumes "json request' ''customer_email'' = json request ''customer_email''"
    and "json request' ''item'' = json request ''item''"
    and "headers request' ''X-User-Role'' = headers request ''X-User-Role''"
  shows "post_orders EmailStr request' s = post_orders EmailStr request s \<and>
         (case post_orders EmailStr request' s of
            (response, ts, s') \<Rightarrow>
              status_code response = 201 \<longrightarrow>
              (\<exists>out row. content response = OrderJson out \<and>
                 OrderOut.id' out = next_rowid (orders s) \<and>
                 OrderOut.status out = created \<and>
                 orders s' = orders s @ [row] \<and>
                 Order.id' row = next_rowid (orders s) \<and>
                 Order.status row = created \<and>
                 next_rowid (orders s) \<notin> Order.id' ` set (orders s)))"
proof -
  have v: "OrderCreate_validate EmailStr (json request') =
           OrderCreate_validate EmailStr (json request)"
    using assms(1,2) by (simp add: OrderCreate_validate_def)
  have a: "post_orders EmailStr request' s = post_orders EmailStr request s"
    using assms(3) v by (simp add: post_orders_unfold)
  have f: "next_rowid (orders s) \<notin> Order.id' ` set (orders s)"
    using next_rowid_fresh [of _ "orders s"] by fastforce
  have b: "case post_orders EmailStr request' s of
            (response, ts, s') \<Rightarrow>
              status_code response = 201 \<longrightarrow>
              (\<exists>out row. content response = OrderJson out \<and>
                 OrderOut.id' out = next_rowid (orders s) \<and>
                 OrderOut.status out = created \<and>
                 orders s' = orders s @ [row] \<and>
                 Order.id' row = next_rowid (orders s) \<and>
                 Order.status row = created \<and>
                 next_rowid (orders s) \<notin> Order.id' ` set (orders s))"
    using f by (simp add: post_orders_unfold Let_def split: sum.splits option.splits)
  show ?thesis using a b by blast
qed

theorem create_ignores_extra_fields_witness:
  "post_orders (\<lambda>v. if v = ''a@b.com'' then Some v else None)
     \<lparr>headers = [''X-User-Role'' \<mapsto> ''staff''],
      json = [''customer_email'' \<mapsto> ''a@b.com'', ''item'' \<mapsto> ''Widget'',
              ''id'' \<mapsto> ''99'', ''status'' \<mapsto> ''completed'']\<rparr>
     \<lparr>orders = [], emitted = []\<rparr> =
   (\<lparr>status_code = 201,
     content = OrderJson \<lparr>OrderOut.id' = 1, customer_email = ''a@b.com'', item = ''Widget'',
                 status = created\<rparr>\<rparr>,
    [],
    \<lparr>orders = [\<lparr>Order.id' = 1, customer_email = ''a@b.com'', item = ''Widget'',
                 status = created\<rparr>],
     emitted = [\<lparr>levelname = ''INFO'', msg = [], event = Some ''order_created'',
                  order_id = Some 1, user = Some ''staff''\<rparr>]\<rparr>)"
  using create_ignores_extra_fields [where request' =
     "\<lparr>headers = [''X-User-Role'' \<mapsto> ''staff''],
      json = [''customer_email'' \<mapsto> ''a@b.com'', ''item'' \<mapsto> ''Widget'',
              ''id'' \<mapsto> ''99'', ''status'' \<mapsto> ''completed'']\<rparr>"
     and request = "\<lparr>headers = [''X-User-Role'' \<mapsto> ''staff''],
      json = [''customer_email'' \<mapsto> ''a@b.com'', ''item'' \<mapsto> ''Widget'']\<rparr>"
     and EmailStr = "\<lambda>v. if v = ''a@b.com'' then Some v else None"
     and s = "\<lparr>orders = [], emitted = []\<rparr>"]
  by (simp add: post_orders_unfold OrderCreate_validate_def constr_def next_rowid_def)

end
